theory Spec2Isabelle
  imports Complex_Main "HOL-Library.Word"
begin

section \<open>JavaScript values\<close>

text \<open>
  The monitor is written in JavaScript, whose only numeric type is the IEEE-754 double.
  A number is modelled as an exact real extended with the three special values a
  division can produce. Rounding of finite results is not modelled: finite arithmetic
  is exact. Positive and negative zero are identified; the program only ever divides by
  a zero that is the difference of two equal numbers, the length of an empty array, or
  such a zero times a positive constant, and each of these is \<open>+0\<close>, so a nonzero
  number divided by zero takes the sign of the dividend.
\<close>

datatype jsnum = Num real | PosInf | NegInf | NaN

datatype js_error = TypeError

type_synonym byte = "8 word"

fun js_sgn :: "jsnum \<Rightarrow> real" where
  "js_sgn (Num a) = sgn a"
| "js_sgn PosInf = 1"
| "js_sgn NegInf = - 1"
| "js_sgn NaN = 0"

definition js_inf :: "real \<Rightarrow> jsnum" where
  "js_inf s = (if s = 0 then NaN else if 0 < s then PosInf else NegInf)"

fun js_neg :: "jsnum \<Rightarrow> jsnum" where
  "js_neg (Num a) = Num (- a)"
| "js_neg PosInf = NegInf"
| "js_neg NegInf = PosInf"
| "js_neg NaN = NaN"

fun js_add :: "jsnum \<Rightarrow> jsnum \<Rightarrow> jsnum" where
  "js_add (Num a) (Num b) = Num (a + b)"
| "js_add (Num a) y = y"
| "js_add x (Num b) = x"
| "js_add PosInf PosInf = PosInf"
| "js_add NegInf NegInf = NegInf"
| "js_add x y = NaN"

definition js_sub :: "jsnum \<Rightarrow> jsnum \<Rightarrow> jsnum" where
  "js_sub x y = js_add x (js_neg y)"

fun js_mul :: "jsnum \<Rightarrow> jsnum \<Rightarrow> jsnum" where
  "js_mul (Num a) (Num b) = Num (a * b)"
| "js_mul x y = js_inf (js_sgn x * js_sgn y)"

fun js_div :: "jsnum \<Rightarrow> jsnum \<Rightarrow> jsnum" where
  "js_div (Num a) (Num b) = (if b = 0 then js_inf (sgn a) else Num (a / b))"
| "js_div (Num a) PosInf = Num 0"
| "js_div (Num a) NegInf = Num 0"
| "js_div PosInf (Num b) = (if b < 0 then NegInf else PosInf)"
| "js_div NegInf (Num b) = (if b < 0 then PosInf else NegInf)"
| "js_div x y = NaN"

fun js_lt :: "jsnum \<Rightarrow> jsnum \<Rightarrow> bool" where
  "js_lt (Num a) (Num b) = (a < b)"
| "js_lt (Num a) PosInf = True"
| "js_lt NegInf (Num b) = True"
| "js_lt NegInf PosInf = True"
| "js_lt x y = False"

definition js_gt :: "jsnum \<Rightarrow> jsnum \<Rightarrow> bool" where
  "js_gt x y = js_lt y x"

text \<open>
  \<open>x == y\<close> and \<open>x != y\<close> on two numbers (the strict forms agree with them there):
  \<open>NaN\<close> differs from everything, itself included.
\<close>

fun js_eq :: "jsnum \<Rightarrow> jsnum \<Rightarrow> bool" where
  "js_eq (Num a) (Num b) = (a = b)"
| "js_eq PosInf PosInf = True"
| "js_eq NegInf NegInf = True"
| "js_eq x y = False"

definition js_ne :: "jsnum \<Rightarrow> jsnum \<Rightarrow> bool" where
  "js_ne x y = (\<not> js_eq x y)"

text \<open>The truth value of a number in a condition: \<open>0\<close> and \<open>NaN\<close> are falsy.\<close>

definition js_truthy :: "jsnum \<Rightarrow> bool" where
  "js_truthy x = (x \<noteq> NaN \<and> x \<noteq> Num 0)"

text \<open>\<open>Math.round\<close>: the nearest integer, halves rounded up; the special values are kept.\<close>

fun js_round :: "jsnum \<Rightarrow> jsnum" where
  "js_round (Num a) = Num (of_int \<lfloor>a + 1 / 2\<rfloor>)"
| "js_round x = x"



section \<open>Data model\<close>

text \<open>
  A sample is the object \<open>{ value, time }\<close> that \<open>processFrame\<close> pushes: the value comes
  from the sampler, the time from \<open>Date.now()\<close>, an integer number of milliseconds.
\<close>

record sample =
  value_s :: jsnum
  time_s :: int

text \<open>The object returned by \<open>analyzeData\<close>.\<close>

record dataStats =
  average :: jsnum
  min_v :: jsnum
  max_v :: jsnum
  range_v :: jsnum
  crossings :: "sample list"

text \<open>
  The repository holds the pipeline twice: the page script \<open>main.js\<close> and the
  \<open>heartRateMonitor\<close> module. The two differ in the sampler, in the line width and in
  one guard of \<open>drawGraph\<close>; everything else is the same text.
\<close>

datatype impl = App | Monitor

definition MAX_SAMPLES :: nat where
  "MAX_SAMPLES = 60 * 5"

text \<open>
  What one tick reads from the outside: the pixel data that \<open>getImageData\<close> returns
  for the sampling canvas (a \<open>Uint8ClampedArray\<close>, four bytes per pixel) and the clock.
\<close>

record frame =
  pixelData :: "byte list"
  now :: int

type_synonym point = "real \<times> jsnum"

text \<open>
  The module state: the sample buffer, the size of the graph canvas, the configured line
  width of the module, the number last shown as BPM (\<open>None\<close> until one was shown) and
  the points given to \<open>lineTo\<close> by the last \<open>drawGraph\<close>.
\<close>

record state =
  SAMPLE_BUFFER :: "sample list"
  GRAPH_CANVAS_width :: nat
  GRAPH_CANVAS_height :: nat
  GRAPH_WIDTH :: real
  BPM_ELEMENT :: "jsnum option"
  GRAPH_PATH :: "point list"

section \<open>Samplers\<close>

text \<open>
  The loop \<open>for (i = 0; i < pixelData.length; i += 4)\<close> of \<open>averageBrightness\<close>, on the
  elements from \<open>i\<close> on. A read past the end of the array gives \<open>undefined\<close>, and a
  number plus \<open>undefined\<close> is \<open>NaN\<close>.
\<close>

fun sumRG :: "jsnum \<Rightarrow> byte list \<Rightarrow> jsnum" where
  "sumRG sum_v [] = sum_v"
| "sumRG sum_v [r] = NaN"
| "sumRG sum_v [r, g] = js_add (js_add sum_v (Num (real (unat r)))) (Num (real (unat g)))"
| "sumRG sum_v [r, g, b] = js_add (js_add sum_v (Num (real (unat r)))) (Num (real (unat g)))"
| "sumRG sum_v (r # g # b # a # rest) =
     sumRG (js_add (js_add sum_v (Num (real (unat r)))) (Num (real (unat g)))) rest"

definition averageBrightness :: "byte list \<Rightarrow> jsnum" where
  "averageBrightness px =
     (let sum_v = sumRG (Num 0) px;
          avg = js_div sum_v (js_mul (Num (real (length px))) (Num (1 / 2)))
      in js_div avg (Num 255))"

text \<open>The same loop in \<open>samplers.basicAvgLightness\<close>, which adds the blue channel too.\<close>

fun sumRGB :: "jsnum \<Rightarrow> byte list \<Rightarrow> jsnum" where
  "sumRGB sum_v [] = sum_v"
| "sumRGB sum_v [r] = NaN"
| "sumRGB sum_v [r, g] = NaN"
| "sumRGB sum_v [r, g, b] =
     js_add (js_add (js_add sum_v (Num (real (unat r)))) (Num (real (unat g)))) (Num (real (unat b)))"
| "sumRGB sum_v (r # g # b # a # rest) =
     sumRGB (js_add (js_add (js_add sum_v (Num (real (unat r)))) (Num (real (unat g))))
               (Num (real (unat b)))) rest"

definition basicAvgLightness :: "byte list \<Rightarrow> jsnum" where
  "basicAvgLightness px =
     (let sum_v = sumRGB (Num 0) px;
          avg = js_div sum_v (js_mul (Num (real (length px))) (Num (3 / 4)))
      in js_div avg (Num 255))"

fun sampler :: "impl \<Rightarrow> byte list \<Rightarrow> jsnum" where
  "sampler App px = basicAvgLightness px"
| "sampler Monitor px = averageBrightness px"

section \<open>Sample buffer\<close>

definition resetBuffer :: "state \<Rightarrow> state" where
  "resetBuffer st = st\<lparr>SAMPLE_BUFFER := []\<rparr>"

text \<open>The push and the conditional shift of \<open>processFrame\<close>.\<close>

definition pushSample :: "sample list \<Rightarrow> sample \<Rightarrow> sample list" where
  "pushSample buf s =
     (let buf' = buf @ [s] in if length buf' > MAX_SAMPLES then tl buf' else buf')"

section \<open>Signal analysis\<close>

text \<open>
  \<open>forEach\<close> of \<open>getAverageCrossings\<close>: the list collected so far, the previous sample,
  and the samples still to visit.
\<close>

fun crossingsLoop :: "jsnum \<Rightarrow> sample list \<Rightarrow> sample \<Rightarrow> sample list \<Rightarrow> sample list" where
  "crossingsLoop avg crossingsSamples previousSample [] = crossingsSamples"
| "crossingsLoop avg crossingsSamples previousSample (currentSample # rest) =
     crossingsLoop avg
       (if js_lt (value_s currentSample) avg \<and> js_gt (value_s previousSample) avg
        then crossingsSamples @ [currentSample] else crossingsSamples)
       currentSample rest"

text \<open>
  On the empty array \<open>previousSample\<close> is \<open>undefined\<close>, the loop body never runs and the
  empty list is returned.
\<close>

definition getAverageCrossings :: "sample list \<Rightarrow> jsnum \<Rightarrow> sample list" where
  "getAverageCrossings samples avg =
     (case samples of [] \<Rightarrow> [] | s0 # rest \<Rightarrow> crossingsLoop avg [] s0 samples)"

text \<open>\<open>reduce((a, c) => a + c)\<close> with no initial value: a \<open>TypeError\<close> on the empty array.\<close>

definition reduce_add :: "jsnum list \<Rightarrow> js_error + jsnum" where
  "reduce_add xs = (case xs of [] \<Rightarrow> Inl TypeError | x # rest \<Rightarrow> Inr (foldl js_add x rest))"

text \<open>One round of the \<open>forEach\<close> that tracks \<open>min\<close> and \<open>max\<close>.\<close>

definition minmaxStep :: "jsnum \<times> jsnum \<Rightarrow> sample \<Rightarrow> jsnum \<times> jsnum" where
  "minmaxStep mm s =
     (let mx = (if js_gt (value_s s) (snd mm) then value_s s else snd mm);
          mn = (if js_lt (value_s s) (fst mm) then value_s s else fst mm)
      in (mn, mx))"

definition analyzeData :: "sample list \<Rightarrow> js_error + dataStats" where
  "analyzeData samples =
     (case reduce_add (map value_s samples) of
        Inl e \<Rightarrow> Inl e
      | Inr sum_v \<Rightarrow>
          (let avg = js_div sum_v (Num (real (length samples))) in
           case samples of
             [] \<Rightarrow> Inl TypeError
           | s0 # rest \<Rightarrow>
               (let mm = foldl minmaxStep (value_s s0, value_s s0) samples;
                    rng = js_sub (snd mm) (fst mm);
                    cs = getAverageCrossings samples avg
                in Inr \<lparr>average = avg, min_v = fst mm, max_v = snd mm,
                         range_v = rng, crossings = cs\<rparr>)))"

section \<open>BPM estimate\<close>

text \<open>\<open>None\<close> is the \<open>undefined\<close> of the bare \<open>return\<close>.\<close>

definition averageInterval :: "sample list \<Rightarrow> jsnum" where
  "averageInterval samples =
     js_div (Num (real_of_int (time_s (samples ! (length samples - 1)) - time_s (samples ! 0))))
            (Num (real (length samples) - 1))"

definition calculateBpm :: "sample list \<Rightarrow> jsnum option" where
  "calculateBpm samples =
     (if length samples < 2 then None
      else Some (js_div (Num 60000) (averageInterval samples)))"

section \<open>Graph\<close>

definition graph_y :: "impl \<Rightarrow> real \<Rightarrow> real \<Rightarrow> dataStats \<Rightarrow> sample \<Rightarrow> jsnum" where
  "graph_y im maxHeight lineWidth stats s =
     (let y = js_add
                (js_div (js_mul (Num maxHeight) (js_sub (value_s s) (min_v stats)))
                        (js_sub (max_v stats) (min_v stats)))
                (Num lineWidth)
      in case im of
           App \<Rightarrow> y
         | Monitor \<Rightarrow> (if value_s s \<noteq> Num 0 then y else Num lineWidth))"

text \<open>
  \<open>forEach((sample, i) => ...)\<close> of \<open>drawGraph\<close>: the index, \<open>previousY\<close>, the points
  given to \<open>lineTo\<close> so far, and the samples still to visit.
\<close>

fun drawLoop ::
  "(sample \<Rightarrow> jsnum) \<Rightarrow> real \<Rightarrow> real \<Rightarrow> nat \<Rightarrow> jsnum \<Rightarrow> point list \<Rightarrow> sample list \<Rightarrow> point list"
where
  "drawLoop yf xScaling xOffset i previousY path [] = path"
| "drawLoop yf xScaling xOffset i previousY path (s # rest) =
     (let x = xScaling * real i + xOffset;
          y = yf s
      in drawLoop yf xScaling xOffset (i + 1) y
           (if js_ne y previousY then path @ [(x, y)] else path) rest)"

text \<open>
  \<open>lineWidth\<close> is the value read back from the drawing context: the constant 6 in the
  page script, the configured \<open>GRAPH_WIDTH\<close> in the module.
\<close>

definition drawGraph ::
  "impl \<Rightarrow> nat \<Rightarrow> nat \<Rightarrow> real \<Rightarrow> sample list \<Rightarrow> dataStats \<Rightarrow> point list" where
  "drawGraph im width height lineWidth samples stats =
     (let xScaling = real width / real MAX_SAMPLES;
          xOffset = (real MAX_SAMPLES - real (length samples)) * xScaling;
          maxHeight = real height - lineWidth * 2
      in drawLoop (graph_y im maxHeight lineWidth stats) xScaling xOffset 0 (Num 0) [] samples)"

fun lineWidth_of :: "impl \<Rightarrow> state \<Rightarrow> real" where
  "lineWidth_of App st = 6"
| "lineWidth_of Monitor st = GRAPH_WIDTH st"

section \<open>One tick\<close>

definition sample_of :: "impl \<Rightarrow> frame \<Rightarrow> sample" where
  "sample_of im fr = \<lparr>value_s = sampler im (pixelData fr), time_s = now fr\<rparr>"

definition processFrame :: "impl \<Rightarrow> state \<Rightarrow> frame \<Rightarrow> js_error + state" where
  "processFrame im st fr =
     (let buf = pushSample (SAMPLE_BUFFER st) (sample_of im fr) in
      case analyzeData buf of
        Inl e \<Rightarrow> Inl e
      | Inr stats \<Rightarrow>
          (let shown = (case calculateBpm (crossings stats) of
                          None \<Rightarrow> BPM_ELEMENT st
                        | Some bpm \<Rightarrow>
                            (if js_truthy bpm then Some (js_round bpm) else BPM_ELEMENT st))
           in Inr (st\<lparr>SAMPLE_BUFFER := buf,
                       BPM_ELEMENT := shown,
                       GRAPH_PATH := drawGraph im (GRAPH_CANVAS_width st) (GRAPH_CANVAS_height st)
                                       (lineWidth_of im st) buf stats\<rparr>)))"

text \<open>
  \<open>monitorLoop\<close> runs \<open>processFrame\<close> once per animation frame while monitoring is on;
  the list holds what the ticks of one run read.
\<close>

fun monitorLoop :: "impl \<Rightarrow> state \<Rightarrow> frame list \<Rightarrow> js_error + state" where
  "monitorLoop im st [] = Inr st"
| "monitorLoop im st (fr # frs) =
     (case processFrame im st fr of Inl e \<Rightarrow> Inl e | Inr st' \<Rightarrow> monitorLoop im st' frs)"

section \<open>Notions of the specification\<close>






text \<open>The horizontal scale and offset of the graph, and the positions whose point is kept:
  those whose \<open>y\<close> differs from the \<open>y\<close> before (from the initial \<open>previousY = 0\<close> at
  position 0).\<close>

definition xScale :: "nat \<Rightarrow> real" where
  "xScale surfaceWidth = real surfaceWidth / real MAX_SAMPLES"

definition xOffset :: "nat \<Rightarrow> nat \<Rightarrow> real" where
  "xOffset surfaceWidth bufferLength =
     (real MAX_SAMPLES - real bufferLength) * xScale surfaceWidth"


section \<open>Inputs for the instances\<close>

definition example_samples :: "sample list" where
  "example_samples =
     [\<lparr>value_s = Num (1 / 2), time_s = 0\<rparr>, \<lparr>value_s = Num (7 / 10), time_s = 16\<rparr>,
      \<lparr>value_s = Num (1 / 5), time_s = 33\<rparr>, \<lparr>value_s = Num (9 / 10), time_s = 50\<rparr>,
      \<lparr>value_s = Num (1 / 10), time_s = 66\<rparr>]"

definition fresh_SAMPLE_BUFFER :: "sample list" where
  "fresh_SAMPLE_BUFFER = []"

definition example_state :: state where
  "example_state =
     \<lparr>SAMPLE_BUFFER = [], GRAPH_CANVAS_width = 600, GRAPH_CANVAS_height = 200,
      GRAPH_WIDTH = 6, BPM_ELEMENT = None, GRAPH_PATH = []\<rparr>"

definition example_frames :: "nat \<Rightarrow> frame list" where
  "example_frames n =
     map (\<lambda>i. \<lparr>pixelData = [word_of_nat i, 7, 9, 255], now = int i * 16\<rparr>) [0..<n]"




definition flat_sample :: sample where
  "flat_sample = \<lparr>value_s = Num (1 / 2), time_s = 0\<rparr>"

definition flat_stats :: dataStats where
  "flat_stats = \<lparr>average = Num (1 / 2), min_v = Num (1 / 2), max_v = Num (1 / 2),
                  range_v = Num 0, crossings = []\<rparr>"






section \<open>The tick never raises\<close>

lemma analyzeData_Cons:
  "analyzeData (s0 # rest) =
     Inr \<lparr>average = js_div (foldl js_add (value_s s0) (map value_s rest))
                            (Num (real (length rest) + 1)),
          min_v = fst (foldl minmaxStep (value_s s0, value_s s0) (s0 # rest)),
          max_v = snd (foldl minmaxStep (value_s s0, value_s s0) (s0 # rest)),
          range_v = js_sub (snd (foldl minmaxStep (value_s s0, value_s s0) (s0 # rest)))
                           (fst (foldl minmaxStep (value_s s0, value_s s0) (s0 # rest))),
          crossings = getAverageCrossings (s0 # rest)
             (js_div (foldl js_add (value_s s0) (map value_s rest))
                     (Num (real (length rest) + 1)))\<rparr>"
  by (simp add: analyzeData_def reduce_add_def Let_def add.commute)

lemma analyzeData_returns: "samples \<noteq> [] \<Longrightarrow> \<exists>stats. analyzeData samples = Inr stats"
  by (cases samples) (simp_all add: analyzeData_Cons)

lemma pushSample_cases:
  "pushSample buf s = (if length buf < MAX_SAMPLES then buf @ [s] else tl buf @ [s])"
  by (cases buf) (auto simp: pushSample_def Let_def MAX_SAMPLES_def)

lemma pushSample_not_Nil: "pushSample buf s \<noteq> []"
  by (cases buf) (auto simp: pushSample_def Let_def MAX_SAMPLES_def)

lemma processFrame_returns:
  "\<exists>st'. processFrame im st fr = Inr st' \<and>
         SAMPLE_BUFFER st' = pushSample (SAMPLE_BUFFER st) (sample_of im fr)"
proof -
  obtain stats where "analyzeData (pushSample (SAMPLE_BUFFER st) (sample_of im fr)) = Inr stats"
    using analyzeData_returns [OF pushSample_not_Nil] by blast
  then show ?thesis
    by (simp add: processFrame_def Let_def)
qed

lemma monitorLoop_returns:
  "\<exists>st'. monitorLoop im st frs = Inr st' \<and>
         SAMPLE_BUFFER st' = foldl pushSample (SAMPLE_BUFFER st) (map (sample_of im) frs)"
proof (induction frs arbitrary: st)
  case Nil
  show ?case by simp
next
  case (Cons fr frs)
  obtain st1 where st1: "processFrame im st fr = Inr st1"
    "SAMPLE_BUFFER st1 = pushSample (SAMPLE_BUFFER st) (sample_of im fr)"
    using processFrame_returns by blast
  from Cons.IH [of st1] st1 show ?case by simp
qed

text \<open>
  Claim C6, as the code has it. On the empty array \<open>analyzeData\<close> raises: \<open>reduce\<close>
  without an initial value throws a \<open>TypeError\<close>.
\<close>

theorem analyzeData_empty_raises: "analyzeData [] = Inl TypeError"
  by (simp add: analyzeData_def reduce_add_def)

text \<open>
  Claim C6, amended. \<open>analyzeData\<close> raises a \<open>TypeError\<close> on the empty array and on
  nothing else. The tick never hands it one: \<open>processFrame\<close> pushes a sample first, so
  every tick returns, with a non-empty buffer.
\<close>

theorem analyzeData_raises_only_on_empty:
  "analyzeData [] = Inl TypeError \<and>
   (\<forall>samples. samples \<noteq> [] \<longrightarrow> (\<exists>stats. analyzeData samples = Inr stats)) \<and>
   (\<forall>im st fr. \<exists>st'. processFrame im st fr = Inr st' \<and> SAMPLE_BUFFER st' \<noteq> [])"
proof -
  have "analyzeData [] = Inl TypeError"
    by (simp add: analyzeData_def reduce_add_def)
  moreover have "\<exists>st'. processFrame im st fr = Inr st' \<and> SAMPLE_BUFFER st' \<noteq> []" for im st fr
    using processFrame_returns [of im st fr] pushSample_not_Nil by auto
  ultimately show ?thesis
    using analyzeData_returns by blast
qed

theorem analyzeData_raises_only_on_empty_witness:
  "(\<exists>stats. analyzeData example_samples = Inr stats) \<and>
   (\<exists>st'. processFrame Monitor example_state (hd (example_frames 1)) = Inr st' \<and>
          SAMPLE_BUFFER st' \<noteq> [])"
proof -
  have "example_samples \<noteq> []" by (simp add: example_samples_def)
  then show ?thesis
    using analyzeData_raises_only_on_empty by blast
qed

section \<open>The buffer is a sliding window\<close>

lemma pushSample_length:
  "length buf \<le> MAX_SAMPLES \<Longrightarrow> length (pushSample buf s) \<le> MAX_SAMPLES"
  by (cases buf) (auto simp: pushSample_cases MAX_SAMPLES_def)

lemma foldl_pushSample_window:
  "length buf \<le> MAX_SAMPLES \<Longrightarrow>
   foldl pushSample buf xs = drop (length buf + length xs - MAX_SAMPLES) (buf @ xs)"
proof (induction xs arbitrary: buf)
  case Nil
  then show ?case by simp
next
  case (Cons x xs)
  have len: "length (pushSample buf x) \<le> MAX_SAMPLES"
    using Cons.prems by (rule pushSample_length)
  have ih: "foldl pushSample (pushSample buf x) xs =
        drop (length (pushSample buf x) + length xs - MAX_SAMPLES) (pushSample buf x @ xs)"
    using Cons.IH [OF len] .
  show ?case
  proof (cases "length buf < MAX_SAMPLES")
    case True
    then have "pushSample buf x = buf @ [x]" by (simp add: pushSample_cases)
    with True ih show ?thesis by simp
  next
    case False
    with Cons.prems have full: "length buf = MAX_SAMPLES" by simp
    then have "buf \<noteq> []" by (auto simp: MAX_SAMPLES_def)
    then obtain b bs where buf: "buf = b # bs" by (cases buf) auto
    have push: "pushSample buf x = bs @ [x]" using full buf by (simp add: pushSample_cases)
    have m: "MAX_SAMPLES = Suc (length bs)" using full buf by simp
    have "foldl pushSample buf (x # xs) = drop (length xs) (bs @ x # xs)"
      using ih by (simp add: push m del: drop_append)
    also have "\<dots> = drop (length buf + length (x # xs) - MAX_SAMPLES) (buf @ x # xs)"
      by (simp add: buf m del: drop_append)
    finally show ?thesis .
  qed
qed

text \<open>
  Claim C3. Start from a reset buffer and run \<open>MAX_SAMPLES + k\<close> ticks with \<open>k \<ge> 1\<close>.
  Every tick returns, the buffer ends with exactly \<open>MAX_SAMPLES\<close> samples, and these are
  the samples of the last \<open>MAX_SAMPLES\<close> ticks in the order in which they were pushed:
  the pushed sequence without its first \<open>k\<close> elements. A push appends at the end and,
  when the length then exceeds \<open>MAX_SAMPLES\<close>, removes the first element and no other.
\<close>

theorem buffer_keeps_latest_window:
  assumes "length frs = MAX_SAMPLES + k" and "1 \<le> k"
  shows "(\<exists>st'. monitorLoop im (resetBuffer st) frs = Inr st' \<and>
               length (SAMPLE_BUFFER st') = MAX_SAMPLES \<and>
               SAMPLE_BUFFER st' = drop k (map (sample_of im) frs)) \<and>
         pushSample buf s =
           (if MAX_SAMPLES < length buf + 1 then tl (buf @ [s]) else buf @ [s])"
proof -
  obtain st' where run: "monitorLoop im (resetBuffer st) frs = Inr st'"
    and buf: "SAMPLE_BUFFER st' =
              foldl pushSample (SAMPLE_BUFFER (resetBuffer st)) (map (sample_of im) frs)"
    using monitorLoop_returns by blast
  have "SAMPLE_BUFFER st' = drop k (map (sample_of im) frs)"
    using buf assms(1) foldl_pushSample_window [of "[]" "map (sample_of im) frs"]
    by (simp add: resetBuffer_def)
  moreover from this assms(1) have "length (SAMPLE_BUFFER st') = MAX_SAMPLES"
    by simp
  moreover have "pushSample buf s =
                 (if MAX_SAMPLES < length buf + 1 then tl (buf @ [s]) else buf @ [s])"
    by (simp add: pushSample_def Let_def)
  ultimately show ?thesis using run by blast
qed

theorem buffer_keeps_latest_window_witness:
  "length (example_frames 302) = MAX_SAMPLES + 2 \<and> (1::nat) \<le> 2 \<and>
   (\<exists>st'. monitorLoop Monitor (resetBuffer example_state) (example_frames 302) = Inr st' \<and>
          length (SAMPLE_BUFFER st') = MAX_SAMPLES \<and>
          SAMPLE_BUFFER st' = drop 2 (map (sample_of Monitor) (example_frames 302)))"
proof -
  have len: "length (example_frames 302) = MAX_SAMPLES + 2"
    by (simp add: example_frames_def MAX_SAMPLES_def)
  have k: "(1::nat) \<le> 2" by simp
  show ?thesis
    using len k buffer_keeps_latest_window [OF len k, of Monitor example_state] by blast
qed

text \<open>
  Claim C9. Reset the buffer, run any number of ticks, reset again: every tick returns
  and the buffer is the empty array the script starts with.
\<close>

theorem reset_round_trip:
  "\<exists>st'. monitorLoop im (resetBuffer st) frs = Inr st' \<and>
         SAMPLE_BUFFER (resetBuffer st') = fresh_SAMPLE_BUFFER"
  using monitorLoop_returns [of im "resetBuffer st" frs]
  by (auto simp: resetBuffer_def fresh_SAMPLE_BUFFER_def)


section \<open>Analysis of a buffer of finite values\<close>






















section \<open>BPM from the crossings\<close>






section \<open>The samplers are normalised\<close>













section \<open>Graph points\<close>













text \<open>
  On a flat signal the quotient is \<open>0 / 0\<close>. The page script has no guard; the guard of
  the module, \<open>sample.value !== 0\<close>, replaces the quotient for a sample of value 0 only.
  Off a flat signal that guard changes nothing: a sample of value 0 is then the minimum,
  and the formula gives the line width by itself.
\<close>

lemma flat_signal_y:
  assumes "value_s s = Num v" and "min_v stats = Num v" and "max_v stats = Num v"
  shows "graph_y App maxHeight lineWidth stats s = NaN"
    and "graph_y Monitor maxHeight lineWidth stats s = (if v = 0 then Num lineWidth else NaN)"
  using assms by (simp_all add: graph_y_def js_sub_def js_inf_def)

lemma zero_guard_off_flat_signal:
  assumes "value_s s = Num 0" and "min_v stats = Num 0" and "max_v stats = Num mx" and "mx \<noteq> 0"
  shows "graph_y App maxHeight lineWidth stats s = Num lineWidth"
    and "graph_y Monitor maxHeight lineWidth stats s = Num lineWidth"
  using assms by (simp_all add: graph_y_def js_sub_def)

text \<open>
  Claim C4, evaluated. The buffer of the first tick of a run holds one sample; it is flat.
  For the value \<open>1/2\<close> both copies of \<open>drawGraph\<close> compute \<open>0 / 0\<close> and give
  \<open>lineTo\<close> a point whose \<open>y\<close> is \<open>NaN\<close>, not the line width 6.
\<close>

theorem flat_signal_draws_NaN:
  "analyzeData [flat_sample] = Inr flat_stats \<and>
   drawGraph App 600 200 6 [flat_sample] flat_stats = [(598, NaN)] \<and>
   drawGraph Monitor 600 200 6 [flat_sample] flat_stats = [(598, NaN)]"
  by (simp add: analyzeData_Cons flat_sample_def flat_stats_def minmaxStep_def js_gt_def Let_def
        js_sub_def getAverageCrossings_def drawGraph_def graph_y_def js_inf_def js_ne_def
        MAX_SAMPLES_def)

end
